theory Spec2Isabelle
  imports Complex_Main "HOL-Library.List_Lexorder" "HOL-Library.Char_ord"
begin

section \<open>The weather data pipeline of \<^verbatim>\<open>weather_data_pipeline.py\<close>\<close>

text \<open>
  The pipeline works on a pandas data frame. The model is a list of records, one
  per row, in row order. A missing value (pandas' NaN or None) is \<open>None\<close>.
  Numbers are exact rationals: the model follows the control flow and the
  arithmetic of the code, not the rounding errors of binary floating point.
  Strings are lists of 8-bit characters, read as ASCII text, and the character
  classes of the code (\<^verbatim>\<open>\d\<close>, \<^verbatim>\<open>lower\<close>, \<^verbatim>\<open>capitalize\<close>) are those of ASCII. Text
  outside ASCII is not modelled: Python's \<^verbatim>\<open>\d\<close> also matches the decimal digits of
  other scripts, so the code accepts dates written in them, and nothing below
  speaks of such input.
\<close>

subsection \<open>Data model\<close>

text \<open>A cell of the \<^verbatim>\<open>date\<close> column: missing, a string, or some other (numeric) value.\<close>

datatype cell = NaN | Text string | Number rat

record weather_record =
  city :: string
  date :: cell
  weather_condition :: "string option"
  temperature_celsius :: "rat option"
  humidity_percent :: "rat option"
  wind_speed_kph :: "rat option"
  temperature_fahrenheit :: "rat option"

text \<open>
  A row as it is ingested, its fields in the order of the input's columns. The column
  \<^verbatim>\<open>temperature_fahrenheit\<close> does not exist yet.
\<close>

definition row :: "string \<Rightarrow> cell \<Rightarrow> string option \<Rightarrow> rat option \<Rightarrow> rat option \<Rightarrow> rat option \<Rightarrow> weather_record" where
  "row c d w t h ws =
     \<lparr>city = c, date = d, weather_condition = w, temperature_celsius = t,
      humidity_percent = h, wind_speed_kph = ws, temperature_fahrenheit = None\<rparr>"

subsection \<open>Characters and digit strings\<close>

definition is_digit :: "char \<Rightarrow> bool" where
  "is_digit c = (48 \<le> (of_char c :: nat) \<and> (of_char c :: nat) \<le> 57)"

definition is_upper :: "char \<Rightarrow> bool" where
  "is_upper c = (65 \<le> (of_char c :: nat) \<and> (of_char c :: nat) \<le> 90)"

definition is_lower :: "char \<Rightarrow> bool" where
  "is_lower c = (97 \<le> (of_char c :: nat) \<and> (of_char c :: nat) \<le> 122)"

definition lower_char :: "char \<Rightarrow> char" where
  "lower_char c = (if is_upper c then char_of ((of_char c :: nat) + 32) else c)"

definition upper_char :: "char \<Rightarrow> char" where
  "upper_char c = (if is_lower c then char_of ((of_char c :: nat) - 32) else c)"

definition digit_val :: "char \<Rightarrow> nat" where
  "digit_val c = (of_char c :: nat) - 48"

definition digit_char :: "nat \<Rightarrow> char" where
  "digit_char n = char_of (n + 48)"

text \<open>The number a string of decimal digits denotes.\<close>

definition nat_of_digits :: "string \<Rightarrow> nat" where
  "nat_of_digits s = foldl (\<lambda>n c. 10 * n + digit_val c) 0 s"

text \<open>The last \<open>w\<close> decimal digits of \<open>n\<close>, zero-padded on the left.\<close>

fun dec :: "nat \<Rightarrow> nat \<Rightarrow> string" where
  "dec 0 n = []"
| "dec (Suc w) n = dec w (n div 10) @ [digit_char (n mod 10)]"

text \<open>\<^verbatim>\<open>str.zfill\<close> on a string without a sign.\<close>

definition zfill :: "nat \<Rightarrow> string \<Rightarrow> string" where
  "zfill w s = replicate (w - length s) (CHR ''0'') @ s"

subsection \<open>\<^verbatim>\<open>clean_dates\<close>\<close>

text \<open>
  One way for \<^verbatim>\<open>^(\d{1,2})SEP(\d{1,2})SEP(\d{4})$\<close> to match: the first group takes
  \<open>n1\<close> characters and the second \<open>n2\<close>. \<^verbatim>\<open>$\<close> matches at the end of the string and
  also just before a newline that ends the string.
\<close>

definition try_split :: "char \<Rightarrow> nat \<Rightarrow> nat \<Rightarrow> string \<Rightarrow> (string \<times> string \<times> string) option" where
  "try_split sep n1 n2 s =
     (let g1 = take n1 s; r1 = drop n1 s;
          g2 = take n2 (drop 1 r1); r2 = drop n2 (drop 1 r1);
          y = take 4 (drop 1 r2); rest = drop 4 (drop 1 r2)
      in if length g1 = n1 \<and> list_all is_digit g1 \<and> take 1 r1 = [sep] \<and>
            length g2 = n2 \<and> list_all is_digit g2 \<and> take 1 r2 = [sep] \<and>
            length y = 4 \<and> list_all is_digit y \<and> (rest = [] \<or> rest = [CHR 0x0A])
         then Some (g1, g2, y) else None)"

text \<open>
  \<^verbatim>\<open>re.match\<close> with one pattern: the quantifier \<^verbatim>\<open>{1,2}\<close> is greedy, so the
  matcher tries two characters before one, the first group outermost.
\<close>

definition re_match :: "char \<Rightarrow> string \<Rightarrow> (string \<times> string \<times> string) option" where
  "re_match sep s =
     (case try_split sep 2 2 s of Some m \<Rightarrow> Some m | None \<Rightarrow>
      (case try_split sep 2 1 s of Some m \<Rightarrow> Some m | None \<Rightarrow>
       (case try_split sep 1 2 s of Some m \<Rightarrow> Some m | None \<Rightarrow>
        try_split sep 1 1 s)))"

text \<open>The formatter shared by the three patterns: group 3, then groups 1 and 2 zero-filled.\<close>

definition formatter :: "string \<times> string \<times> string \<Rightarrow> string" where
  "formatter m = (case m of (g1, g2, g3) \<Rightarrow> g3 @ ''-'' @ zfill 2 g1 @ ''-'' @ zfill 2 g2)"

text \<open>The separators of the three patterns, in the order of the list \<^verbatim>\<open>patterns\<close>.\<close>

definition patterns :: "char list" where
  "patterns = [CHR ''/'', CHR ''-'', CHR ''.'']"

fun first_match :: "char list \<Rightarrow> string \<Rightarrow> string option" where
  "first_match [] s = None"
| "first_match (sep # seps) s =
     (case re_match sep s of Some m \<Rightarrow> Some (formatter m) | None \<Rightarrow> first_match seps s)"

definition standardize_date :: "cell \<Rightarrow> string option" where
  "standardize_date date_str =
     (case date_str of Text s \<Rightarrow> first_match patterns s | _ \<Rightarrow> None)"

definition is_leap :: "nat \<Rightarrow> bool" where
  "is_leap y = (y mod 4 = 0 \<and> (y mod 100 \<noteq> 0 \<or> y mod 400 = 0))"

definition days_in_month :: "nat \<Rightarrow> nat \<Rightarrow> nat" where
  "days_in_month y m =
     (if m = 2 then (if is_leap y then 29 else 28)
      else if m = 4 \<or> m = 6 \<or> m = 9 \<or> m = 11 then 30 else 31)"

definition valid_date :: "nat \<Rightarrow> nat \<Rightarrow> nat \<Rightarrow> bool" where
  "valid_date y m d = (1 \<le> m \<and> m \<le> 12 \<and> 1 \<le> d \<and> d \<le> days_in_month y m)"

text \<open>
  Modelled from the spec: \<^verbatim>\<open>pd.to_datetime(..., errors='coerce')\<close> is pandas' code, not
  the repository's. The spec says of it that the constructed string \<^verbatim>\<open>YYYY-MM-DD\<close> is
  validated as a real calendar date (month 1 to 12, day valid for that month, leap
  years included), and that a string that is no real date becomes missing. The
  range of years a pandas timestamp can hold is not part of the model.
\<close>

definition to_datetime :: "string \<Rightarrow> (nat \<times> nat \<times> nat) option" where
  "to_datetime s =
     (if length s = 10 \<and> list_all is_digit (take 4 s) \<and> s ! 4 = CHR ''-'' \<and>
         list_all is_digit (take 2 (drop 5 s)) \<and> s ! 7 = CHR ''-'' \<and>
         list_all is_digit (drop 8 s)
      then (let y = nat_of_digits (take 4 s); m = nat_of_digits (take 2 (drop 5 s));
                d = nat_of_digits (drop 8 s)
            in if valid_date y m d then Some (y, m, d) else None)
      else None)"

text \<open>\<^verbatim>\<open>strftime('%Y-%m-%d')\<close> for a year of four digits.\<close>

definition strftime :: "nat \<times> nat \<times> nat \<Rightarrow> string" where
  "strftime t = (case t of (y, m, d) \<Rightarrow> dec 4 y @ ''-'' @ dec 2 m @ ''-'' @ dec 2 d)"

text \<open>
  What \<^verbatim>\<open>clean_dates\<close> does to one row that has a date: the columns of the source are
  computed row by row, so the three steps (standardize, convert, format) compose per
  row. \<open>None\<close> is a dropped row.
\<close>

definition clean_date_row :: "weather_record \<Rightarrow> weather_record option" where
  "clean_date_row r =
     (case standardize_date (date r) of
        None \<Rightarrow> None
      | Some sd \<Rightarrow>
          (case to_datetime sd of
             None \<Rightarrow> None
           | Some t \<Rightarrow> Some (r\<lparr>date := Text (strftime t)\<rparr>)))"

definition clean_dates :: "weather_record list \<Rightarrow> weather_record list" where
  "clean_dates df = List.map_filter clean_date_row (filter (\<lambda>r. date r \<noteq> NaN) df)"

text \<open>
  The strings that the three patterns match, for the proofs:
  \<open>date_string sep g1 g2 y s\<close> says that \<open>s\<close> is a first group \<open>g1\<close> and a second group
  \<open>g2\<close> of one or two digits and a year \<open>y\<close> of four digits, separated by \<open>sep\<close>, one of
  the three separators, and that nothing follows the year but, as \<^verbatim>\<open>$\<close> lets it,
  possibly one newline.
\<close>

definition date_string :: "char \<Rightarrow> string \<Rightarrow> string \<Rightarrow> string \<Rightarrow> string \<Rightarrow> bool" where
  "date_string sep g1 g2 y s =
     (sep \<in> set patterns \<and>
      (s = g1 @ sep # g2 @ sep # y \<or> s = g1 @ sep # g2 @ sep # y @ [CHR 0x0A]) \<and>
      (length g1 = 1 \<or> length g1 = 2) \<and> list_all is_digit g1 \<and>
      (length g2 = 1 \<or> length g2 = 2) \<and> list_all is_digit g2 \<and>
      length y = 4 \<and> list_all is_digit y)"

text \<open>
  \<open>canonical_date c out\<close>: the cell \<open>c\<close> holds such a string, its groups read as
  month, day and year are a real calendar date, and \<open>out\<close> is that date written
  \<^verbatim>\<open>YYYY-MM-DD\<close>, month and day zero-padded.
\<close>

definition canonical_date :: "cell \<Rightarrow> string \<Rightarrow> bool" where
  "canonical_date c out =
     (\<exists>sep g1 g2 y s. c = Text s \<and> date_string sep g1 g2 y s \<and>
        valid_date (nat_of_digits y) (nat_of_digits g1) (nat_of_digits g2) \<and>
        out = y @ ''-'' @ zfill 2 g1 @ ''-'' @ zfill 2 g2)"

subsection \<open>\<^verbatim>\<open>clean_weather_conditions\<close>\<close>

definition str_lower :: "string \<Rightarrow> string" where
  "str_lower s = map lower_char s"

definition str_capitalize :: "string \<Rightarrow> string" where
  "str_capitalize s = (case s of [] \<Rightarrow> [] | c # cs \<Rightarrow> upper_char c # map lower_char cs)"

text \<open>\<^verbatim>\<open>replace({'Null': np.nan, 'NULL': np.nan})\<close> on one value.\<close>

definition replace_null :: "string option \<Rightarrow> string option" where
  "replace_null w = (if w = Some ''Null'' \<or> w = Some ''NULL'' then None else w)"

definition clean_weather_conditions :: "weather_record list \<Rightarrow> weather_record list" where
  "clean_weather_conditions df =
     (let df1 = map (\<lambda>r. r\<lparr>weather_condition :=
                   map_option (\<lambda>s. str_capitalize (str_lower s)) (weather_condition r)\<rparr>) df;
          df2 = map (\<lambda>r. r\<lparr>weather_condition := replace_null (weather_condition r)\<rparr>) df1
      in filter (\<lambda>r. \<not> (weather_condition r = Some ''Unknown'' \<or> weather_condition r = None)) df2)"

text \<open>
  The form \<^verbatim>\<open>capitalize\<close> leaves a string in: its first character is no lowercase
  letter and no later character is an uppercase letter.
\<close>

definition capitalized_form :: "string \<Rightarrow> bool" where
  "capitalized_form s =
     (case s of [] \<Rightarrow> True | c # cs \<Rightarrow> \<not> is_lower c \<and> list_all (\<lambda>x. \<not> is_upper x) cs)"

subsection \<open>\<^verbatim>\<open>handle_missing_values\<close>\<close>

datatype column = Temperature_celsius | Humidity_percent | Wind_speed_kph

fun get_col :: "column \<Rightarrow> weather_record \<Rightarrow> rat option" where
  "get_col Temperature_celsius r = temperature_celsius r"
| "get_col Humidity_percent r = humidity_percent r"
| "get_col Wind_speed_kph r = wind_speed_kph r"

fun set_col :: "column \<Rightarrow> rat \<Rightarrow> weather_record \<Rightarrow> weather_record" where
  "set_col Temperature_celsius v r = r\<lparr>temperature_celsius := Some v\<rparr>"
| "set_col Humidity_percent v r = r\<lparr>humidity_percent := Some v\<rparr>"
| "set_col Wind_speed_kph v r = r\<lparr>wind_speed_kph := Some v\<rparr>"

text \<open>\<^verbatim>\<open>Series.mean()\<close>: the mean of the values that are present, NaN when there is none.\<close>

definition series_mean :: "rat option list \<Rightarrow> rat option" where
  "series_mean vs =
     (let xs = List.map_filter (\<lambda>v. v) vs
      in if xs = [] then None else Some (sum_list xs / of_nat (length xs)))"

text \<open>\<^verbatim>\<open>df.groupby('city')[column].mean().get(city)\<close>.\<close>

definition groupby_mean :: "column \<Rightarrow> weather_record list \<Rightarrow> string \<Rightarrow> rat option" where
  "groupby_mean col df c = series_mean (map (get_col col) (filter (\<lambda>r. city r = c) df))"

text \<open>\<^verbatim>\<open>Series.unique()\<close>: the distinct values in order of first appearance.\<close>

definition unique :: "'a list \<Rightarrow> 'a list" where
  "unique xs = rev (remdups (rev xs))"

text \<open>
  The body of the loop over the cities. The test
  \<^verbatim>\<open>city_avg.get(city) and not pd.isna(city_avg.get(city))\<close> is a truth test of a float:
  it fails for NaN by its second half and for \<open>0.0\<close> by its first.
\<close>

definition fill_city :: "column \<Rightarrow> (string \<Rightarrow> rat option) \<Rightarrow> string \<Rightarrow> weather_record list \<Rightarrow> weather_record list" where
  "fill_city col city_avg c df =
     (case city_avg c of
        None \<Rightarrow> df
      | Some m \<Rightarrow>
          if m \<noteq> 0
          then map (\<lambda>r. if city r = c \<and> get_col col r = None then set_col col m r else r) df
          else df)"

definition fill_cities :: "column \<Rightarrow> weather_record list \<Rightarrow> weather_record list" where
  "fill_cities col df =
     (let city_avg = groupby_mean col df
      in fold (fill_city col city_avg) (unique (map city df)) df)"

text \<open>\<^verbatim>\<open>df[column].fillna(global_avg)\<close>; filling with NaN changes nothing.\<close>

definition fillna :: "column \<Rightarrow> rat option \<Rightarrow> weather_record list \<Rightarrow> weather_record list" where
  "fillna col global_avg df =
     (case global_avg of
        None \<Rightarrow> df
      | Some g \<Rightarrow> map (\<lambda>r. if get_col col r = None then set_col col g r else r) df)"

text \<open>
  The treatment of one column: the city averages, then the global average of the
  column as it is after the loop. The source writes it once for the temperature and
  once in a loop for the two other columns.
\<close>

definition impute_column :: "column \<Rightarrow> weather_record list \<Rightarrow> weather_record list" where
  "impute_column col df =
     (let df' = fill_cities col df;
          global_avg = series_mean (map (get_col col) df')
      in fillna col global_avg df')"

definition handle_missing_values :: "weather_record list \<Rightarrow> weather_record list" where
  "handle_missing_values df =
     fold impute_column [Humidity_percent, Wind_speed_kph] (impute_column Temperature_celsius df)"

text \<open>
  What the loop over the cities, and then \<^verbatim>\<open>fillna\<close>, do to one row: a helper for the
  proofs, which show that the loop is a map over the rows.
\<close>

definition city_level :: "column \<Rightarrow> (string \<Rightarrow> rat option) \<Rightarrow> weather_record \<Rightarrow> weather_record" where
  "city_level col avg r =
     (case get_col col r of
        Some v \<Rightarrow> r
      | None \<Rightarrow> (case avg (city r) of None \<Rightarrow> r | Some m \<Rightarrow> if m \<noteq> 0 then set_col col m r else r))"

definition global_level :: "column \<Rightarrow> rat option \<Rightarrow> weather_record \<Rightarrow> weather_record" where
  "global_level col g r =
     (case get_col col r of Some v \<Rightarrow> r | None \<Rightarrow> (case g of None \<Rightarrow> r | Some m \<Rightarrow> set_col col m r))"

text \<open>
  The values of a column once the city averages are filled in: a value that was
  present, or else the average of the row's city where that average exists and is
  not zero, or else still missing.
\<close>

definition after_city_step :: "column \<Rightarrow> weather_record list \<Rightarrow> rat option list" where
  "after_city_step col df =
     map (\<lambda>r. case get_col col r of
                 Some v \<Rightarrow> Some v
               | None \<Rightarrow> (case groupby_mean col df (city r) of
                            None \<Rightarrow> None
                          | Some m \<Rightarrow> if m \<noteq> 0 then Some m else None)) df"

text \<open>The column at the end: what is still missing takes the mean of the values above.\<close>

definition imputed_values :: "column \<Rightarrow> weather_record list \<Rightarrow> rat option list" where
  "imputed_values col df =
     map (\<lambda>v. case v of Some x \<Rightarrow> Some x | None \<Rightarrow> series_mean (after_city_step col df))
       (after_city_step col df)"

text \<open>
  The frame of the stage: \<open>kept v v'\<close> says that a value that was present is still
  there, and \<open>only_fills r r'\<close> that \<open>r'\<close> is \<open>r\<close> but for numeric fields that were missing.
\<close>

definition kept :: "rat option \<Rightarrow> rat option \<Rightarrow> bool" where
  "kept v v' = (case v of None \<Rightarrow> True | Some x \<Rightarrow> v' = Some x)"

definition only_fills :: "weather_record \<Rightarrow> weather_record \<Rightarrow> bool" where
  "only_fills r r' =
     (city r' = city r \<and> date r' = date r \<and> weather_condition r' = weather_condition r \<and>
      temperature_fahrenheit r' = temperature_fahrenheit r \<and>
      kept (temperature_celsius r) (temperature_celsius r') \<and>
      kept (humidity_percent r) (humidity_percent r') \<and>
      kept (wind_speed_kph r) (wind_speed_kph r'))"

subsection \<open>\<^verbatim>\<open>add_fahrenheit_column\<close> and \<^verbatim>\<open>round_numeric_columns\<close>\<close>

definition add_fahrenheit_column :: "weather_record list \<Rightarrow> weather_record list" where
  "add_fahrenheit_column df =
     map (\<lambda>r. r\<lparr>temperature_fahrenheit :=
              map_option (\<lambda>c. c * 9 / 5 + 32) (temperature_celsius r)\<rparr>) df"

text \<open>Rounding to the nearest integer, a tie to the even neighbour (numpy's \<^verbatim>\<open>rint\<close>).\<close>

definition rint :: "rat \<Rightarrow> int" where
  "rint x =
     (let f = \<lfloor>x\<rfloor>; d = x - of_int f
      in if d < 1 / 2 then f else if 1 / 2 < d then f + 1 else if even f then f else f + 1)"

text \<open>\<^verbatim>\<open>round(2)\<close>: two decimal places.\<close>

definition round2 :: "rat \<Rightarrow> rat" where
  "round2 x = of_int (rint (x * 100)) / 100"

definition round_numeric_columns :: "weather_record list \<Rightarrow> weather_record list" where
  "round_numeric_columns df =
     map (\<lambda>r. r\<lparr>temperature_celsius := map_option round2 (temperature_celsius r),
               temperature_fahrenheit := map_option round2 (temperature_fahrenheit r),
               humidity_percent := map_option round2 (humidity_percent r),
               wind_speed_kph := map_option round2 (wind_speed_kph r)\<rparr>) df"

subsection \<open>\<^verbatim>\<open>generate_city_temperature_report\<close>\<close>







text \<open>
  The order of the report: \<open>mean_ge a b\<close> says that a city with the mean \<open>a\<close> may stand
  before a city with the mean \<open>b\<close>, a larger mean first and a missing mean last.
\<close>

definition mean_ge :: "rat option \<Rightarrow> rat option \<Rightarrow> bool" where
  "mean_ge a b = (case b of None \<Rightarrow> True | Some y \<Rightarrow> (case a of None \<Rightarrow> False | Some x \<Rightarrow> y \<le> x))"

subsection \<open>The transformations of \<^verbatim>\<open>main\<close>, in order\<close>

definition main :: "weather_record list \<Rightarrow> weather_record list" where
  "main df =
     round_numeric_columns (add_fahrenheit_column (handle_missing_values
       (clean_weather_conditions (clean_dates df))))"

section \<open>Properties\<close>

subsection \<open>Date normalization, row by row\<close>

lemma clean_dates_Cons:
  "clean_dates (r # df) =
     (if date r = NaN then clean_dates df
      else (case clean_date_row r of None \<Rightarrow> clean_dates df | Some r' \<Rightarrow> r' # clean_dates df))"
  by (cases "clean_date_row r") (simp_all add: clean_dates_def)

lemma clean_dates_append: "clean_dates (xs @ ys) = clean_dates xs @ clean_dates ys"
  by (simp add: clean_dates_def List.map_filter_def)

lemma standardize_month_first: "standardize_date (Text ''03/15/2023'') = Some ''2023-03-15''"
  by code_simp

lemma standardize_day_first: "standardize_date (Text ''15/03/2023'') = Some ''2023-15-03''"
  by code_simp

lemma standardize_feb_31: "standardize_date (Text ''31/02/2023'') = Some ''2023-31-02''"
  by code_simp

lemma to_datetime_march_15: "to_datetime ''2023-03-15'' = Some (2023, 3, 15)"
  by code_simp

lemma to_datetime_month_15: "to_datetime ''2023-15-03'' = None"
  by code_simp

lemma to_datetime_month_31: "to_datetime ''2023-31-02'' = None"
  by code_simp

lemma strftime_march_15: "strftime (2023, 3, 15) = ''2023-03-15''"
  by code_simp

text \<open>
  C4, as the code has it. The first group of a date string is read as the month:
  \<^verbatim>\<open>03/15/2023\<close> becomes \<^verbatim>\<open>2023-03-15\<close>, whatever rows stand around it. A row whose date
  is \<^verbatim>\<open>15/03/2023\<close> is dropped (the candidate \<^verbatim>\<open>2023-15-03\<close> has month 15), and so is
  a row whose date is \<^verbatim>\<open>31/02/2023\<close> (the candidate \<^verbatim>\<open>2023-31-02\<close> has month 31).
\<close>

theorem clean_dates_examples:
  "clean_dates (xs @ r\<lparr>date := Text ''03/15/2023''\<rparr> # ys)
     = clean_dates xs @ r\<lparr>date := Text ''2023-03-15''\<rparr> # clean_dates ys \<and>
   clean_dates (xs @ r\<lparr>date := Text ''15/03/2023''\<rparr> # ys) = clean_dates xs @ clean_dates ys \<and>
   clean_dates (xs @ r\<lparr>date := Text ''31/02/2023''\<rparr> # ys) = clean_dates xs @ clean_dates ys"
  by (simp add: clean_dates_append clean_dates_Cons clean_date_row_def
      standardize_month_first standardize_day_first standardize_feb_31
      to_datetime_march_15 to_datetime_month_15 to_datetime_month_31 strftime_march_15)

theorem clean_dates_examples_witness:
  "clean_dates [row ''Oslo'' (Text ''03/15/2023'') (Some ''Sunny'') (Some 4) None None]
     = [row ''Oslo'' (Text ''2023-03-15'') (Some ''Sunny'') (Some 4) None None] \<and>
   clean_dates [row ''Oslo'' (Text ''31/02/2023'') (Some ''Sunny'') (Some 4) None None] = []"
  using clean_dates_examples
    [of "[]" "row ''Oslo'' NaN (Some ''Sunny'') (Some 4) None None" "[]"]
  by (simp add: row_def clean_dates_def)

text \<open>
  C4, as the claim states it, fails: the row whose date is \<^verbatim>\<open>15/03/2023\<close> does not come
  out with the date \<^verbatim>\<open>2023-03-15\<close>; it does not come out at all.
\<close>

theorem clean_dates_day_first_counterexample:
  "map date (clean_dates [row ''Oslo'' (Text ''15/03/2023'') (Some ''Sunny'') (Some 4) None None])
     \<noteq> [Text ''2023-03-15'']"
  by (simp add: row_def clean_dates_Cons clean_date_row_def standardize_day_first
      to_datetime_month_15 clean_dates_def)

subsection \<open>Date normalization: the patterns\<close>

lemma take1_eq: "take 1 xs = [a] \<Longrightarrow> xs = a # drop 1 xs"
  by (cases xs) simp_all

lemma if_Some_eq: "((if C then Some a else None) = Some b) = (C \<and> a = b)"
  by simp

lemma try_split_SomeD:
  assumes "try_split sep n1 n2 s = Some (g1, g2, y)"
  shows "\<exists>nl. s = g1 @ sep # g2 @ sep # y @ nl \<and> (nl = [] \<or> nl = [CHR 0x0A]) \<and>
           length g1 = n1 \<and> list_all is_digit g1 \<and> length g2 = n2 \<and> list_all is_digit g2 \<and>
           length y = 4 \<and> list_all is_digit y"
proof -
  define r1 where "r1 = drop n1 s"
  define r2 where "r2 = drop n2 (drop 1 r1)"
  define nl where "nl = drop 4 (drop 1 r2)"
  from assms have raw:
    "(length (take n1 s) = n1 \<and> list_all is_digit (take n1 s) \<and> take 1 r1 = [sep] \<and>
      length (take n2 (drop 1 r1)) = n2 \<and> list_all is_digit (take n2 (drop 1 r1)) \<and>
      take 1 r2 = [sep] \<and> length (take 4 (drop 1 r2)) = 4 \<and>
      list_all is_digit (take 4 (drop 1 r2)) \<and> (nl = [] \<or> nl = [CHR 0x0A])) \<and>
     (take n1 s, take n2 (drop 1 r1), take 4 (drop 1 r2)) = (g1, g2, y)"
    unfolding try_split_def Let_def if_Some_eq r1_def r2_def nl_def .
  then have g1: "g1 = take n1 s" and g2: "g2 = take n2 (drop 1 r1)"
    and y: "y = take 4 (drop 1 r2)"
    by (simp_all only: prod.inject)
  from raw have c: "length g1 = n1" "list_all is_digit g1" "take 1 r1 = [sep]"
      "length g2 = n2" "list_all is_digit g2" "take 1 r2 = [sep]"
      "length y = 4" "list_all is_digit y" "nl = [] \<or> nl = [CHR 0x0A]"
    unfolding g1 g2 y by blast+
  have "s = g1 @ r1"
    by (simp only: g1 r1_def append_take_drop_id)
  also have "r1 = sep # drop 1 r1"
    using c(3) by (rule take1_eq)
  also have "drop 1 r1 = g2 @ r2"
    by (simp only: g2 r2_def append_take_drop_id)
  also have "r2 = sep # drop 1 r2"
    using c(6) by (rule take1_eq)
  also have "drop 1 r2 = y @ nl"
    by (simp only: y nl_def append_take_drop_id)
  finally have "s = g1 @ sep # g2 @ sep # y @ nl" .
  with c show ?thesis
    by blast
qed

lemma try_split_shape:
  assumes "s = g1 @ sep # g2 @ sep # y @ nl" and "nl = [] \<or> nl = [CHR 0x0A]"
    and "list_all is_digit g1" and "list_all is_digit g2"
    and "length y = 4" and "list_all is_digit y"
  shows "try_split sep (length g1) (length g2) s = Some (g1, g2, y)"
proof -
  have a: "take (length g1) s = g1" "drop (length g1) s = sep # g2 @ sep # y @ nl"
    using assms(1) by simp_all
  have b: "take (length g2) (g2 @ sep # y @ nl) = g2"
    "drop (length g2) (g2 @ sep # y @ nl) = sep # y @ nl"
    by simp_all
  have c: "take 4 (y @ nl) = y" "drop 4 (y @ nl) = nl"
    using assms(5) by simp_all
  have d: "drop 1 (sep # g2 @ sep # y @ nl) = g2 @ sep # y @ nl"
    "drop 1 (sep # y @ nl) = y @ nl" "take 1 (sep # g2 @ sep # y @ nl) = [sep]"
    "take 1 (sep # y @ nl) = [sep]"
    by simp_all
  show ?thesis
    unfolding try_split_def Let_def a d b c
    using assms(2-) by simp
qed

lemma digits_prefix_unique:
  assumes "list_all is_digit a" and "list_all is_digit g" and "\<not> is_digit x" and "\<not> is_digit x'"
    and "a @ x # t = g @ x' # t'"
  shows "a = g \<and> x = x' \<and> t = t'"
  using assms
proof (induction a arbitrary: g)
  case Nil
  then show ?case by (cases g) auto
next
  case (Cons c a)
  then show ?case by (cases g) auto
qed

lemma try_split_unique:
  assumes t: "try_split sep' n1 n2 s = Some m"
    and s: "s = g1 @ sep # g2 @ sep # y @ nl"
    and d: "list_all is_digit g1" "list_all is_digit g2" "length y = 4"
    and n: "\<not> is_digit sep" "\<not> is_digit sep'"
  shows "sep' = sep \<and> m = (g1, g2, y)"
proof -
  obtain a b c where m: "m = (a, b, c)"
    by (cases m)
  from t [unfolded m] obtain nl' where s': "s = a @ sep' # b @ sep' # c @ nl'"
    and da: "list_all is_digit a" and db: "list_all is_digit b" and lc: "length c = 4"
    using try_split_SomeD by blast
  from s s' have "a @ sep' # (b @ sep' # c @ nl') = g1 @ sep # (g2 @ sep # y @ nl)"
    by simp
  with da d(1) n have 1: "a = g1" "sep' = sep" "b @ sep' # c @ nl' = g2 @ sep # y @ nl"
    using digits_prefix_unique by blast+
  from 1(3) db d(2) n have 2: "b = g2" "c @ nl' = y @ nl"
    using digits_prefix_unique by blast+
  from 2(2) lc d(3) have "c = y"
    by simp
  with 1 2 m show ?thesis
    by simp
qed

lemma re_match_try:
  "re_match sep s = Some m \<Longrightarrow>
     \<exists>n1 n2. (n1 = 1 \<or> n1 = 2) \<and> (n2 = 1 \<or> n2 = 2) \<and> try_split sep n1 n2 s = Some m"
  by (auto simp: re_match_def split: option.splits)

lemma re_match_SomeD:
  assumes "re_match sep s = Some (g1, g2, y)"
  shows "\<exists>nl. s = g1 @ sep # g2 @ sep # y @ nl \<and> (nl = [] \<or> nl = [CHR 0x0A]) \<and>
           (length g1 = 1 \<or> length g1 = 2) \<and> list_all is_digit g1 \<and>
           (length g2 = 1 \<or> length g2 = 2) \<and> list_all is_digit g2 \<and>
           length y = 4 \<and> list_all is_digit y"
proof -
  from assms obtain n1 n2 where "n1 = 1 \<or> n1 = 2" "n2 = 1 \<or> n2 = 2"
    "try_split sep n1 n2 s = Some (g1, g2, y)"
    using re_match_try by blast
  with try_split_SomeD [of sep n1 n2 s g1 g2 y] show ?thesis
    by auto
qed

lemma re_match_unique:
  assumes "re_match sep' s = Some m"
    and "s = g1 @ sep # g2 @ sep # y @ nl"
    and "list_all is_digit g1" "list_all is_digit g2" "length y = 4"
    and "\<not> is_digit sep" "\<not> is_digit sep'"
  shows "sep' = sep \<and> m = (g1, g2, y)"
proof -
  from assms(1) obtain n1 n2 where "try_split sep' n1 n2 s = Some m"
    using re_match_try by blast
  then show ?thesis
    using assms(2-) by (rule try_split_unique)
qed

lemma re_match_shape:
  assumes s: "s = g1 @ sep # g2 @ sep # y @ nl" and nl: "nl = [] \<or> nl = [CHR 0x0A]"
    and l: "length g1 = 1 \<or> length g1 = 2" "length g2 = 1 \<or> length g2 = 2"
    and d: "list_all is_digit g1" "list_all is_digit g2" "length y = 4" "list_all is_digit y"
    and n: "\<not> is_digit sep"
  shows "re_match sep s = Some (g1, g2, y)"
proof -
  have some: "try_split sep (length g1) (length g2) s = Some (g1, g2, y)"
    using s nl d(1,2,3,4) by (rule try_split_shape)
  have only: "try_split sep n1 n2 s = None \<or> try_split sep n1 n2 s = Some (g1, g2, y)" for n1 n2
  proof (cases "try_split sep n1 n2 s")
    case None
    then show ?thesis by simp
  next
    case (Some m)
    then have "m = (g1, g2, y)"
      using try_split_unique [OF Some s d(1,2,3) n n] by simp
    with Some show ?thesis by simp
  qed
  from l some only [of 2 2] only [of 2 1] only [of 1 2] show ?thesis
    by (auto simp: re_match_def split: option.splits)
qed

subsection \<open>Date normalization: digits, the formatter and the conversion\<close>

lemma not_digit_patterns: "sep \<in> set patterns \<Longrightarrow> \<not> is_digit sep"
  by (auto simp: patterns_def is_digit_def)

lemma first_match_SomeD:
  "first_match seps s = Some sd \<Longrightarrow>
     \<exists>sep m. sep \<in> set seps \<and> re_match sep s = Some m \<and> sd = formatter m"
  by (induction seps) (auto split: option.splits)

lemma first_match_shape:
  assumes "\<And>sep'. sep' \<in> set seps \<Longrightarrow> re_match sep' s = None \<or> re_match sep' s = Some m"
    and "sep \<in> set seps" and "re_match sep s = Some m"
  shows "first_match seps s = Some (formatter m)"
  using assms
proof (induction seps)
  case Nil
  then show ?case by simp
next
  case (Cons a seps)
  show ?case
  proof (cases "re_match a s")
    case None
    with Cons.prems have "sep \<in> set seps"
      by auto
    with Cons None show ?thesis
      by simp
  next
    case (Some m')
    with Cons.prems(1) [of a] have "m' = m"
      by simp
    with Some show ?thesis
      by simp
  qed
qed

lemma digit_val_less: "is_digit c \<Longrightarrow> digit_val c < 10"
  by (auto simp: is_digit_def digit_val_def)

lemma digit_char_val: "is_digit c \<Longrightarrow> digit_char (digit_val c) = c"
  by (simp add: is_digit_def digit_val_def digit_char_def)

lemma is_digit_digit_char: "n < 10 \<Longrightarrow> is_digit (digit_char n)"
  by (simp add: is_digit_def digit_char_def)

lemma is_digit_zero: "is_digit (CHR ''0'')"
  by (simp add: is_digit_def)

lemma digit_val_zero: "digit_val (CHR ''0'') = 0"
  by (simp add: digit_val_def)

lemma nat_of_digits_snoc: "nat_of_digits (s @ [c]) = 10 * nat_of_digits s + digit_val c"
  by (simp add: nat_of_digits_def)

lemma dec_nat_of_digits: "list_all is_digit s \<Longrightarrow> dec (length s) (nat_of_digits s) = s"
proof (induction s rule: rev_induct)
  case Nil
  then show ?case by simp
next
  case (snoc c s)
  then have c: "digit_val c < 10" "digit_char (digit_val c) = c"
    by (simp_all add: digit_val_less digit_char_val)
  from snoc have "dec (length s) (nat_of_digits s) = s"
    by simp
  with c show ?case
    by (simp add: nat_of_digits_snoc)
qed

lemma nat_of_digits_Cons0: "nat_of_digits (CHR ''0'' # s) = nat_of_digits s"
  by (simp add: nat_of_digits_def digit_val_zero)

lemma zfill2_cases:
  "length g = 1 \<or> length g = 2 \<Longrightarrow> zfill 2 g = g \<and> length g = 2 \<or> zfill 2 g = CHR ''0'' # g \<and> length g = 1"
  by (auto simp: zfill_def numeral_2_eq_2)

lemma length_zfill2: "length g = 1 \<or> length g = 2 \<Longrightarrow> length (zfill 2 g) = 2"
  using zfill2_cases [of g] by auto

lemma digits_zfill2: "length g = 1 \<or> length g = 2 \<Longrightarrow> list_all is_digit g \<Longrightarrow> list_all is_digit (zfill 2 g)"
  using zfill2_cases [of g] by (auto simp: is_digit_zero)

lemma nat_of_digits_zfill2: "length g = 1 \<or> length g = 2 \<Longrightarrow> nat_of_digits (zfill 2 g) = nat_of_digits g"
  using zfill2_cases [of g] by (auto simp: nat_of_digits_Cons0)

lemma dec2_zfill:
  assumes "length g = 1 \<or> length g = 2" and "list_all is_digit g"
  shows "dec 2 (nat_of_digits g) = zfill 2 g"
proof -
  have "dec (length (zfill 2 g)) (nat_of_digits (zfill 2 g)) = zfill 2 g"
    using assms by (intro dec_nat_of_digits digits_zfill2)
  then show ?thesis
    using assms by (simp add: length_zfill2 nat_of_digits_zfill2)
qed

lemma to_datetime_formatter:
  assumes "length g1 = 1 \<or> length g1 = 2" "list_all is_digit g1"
    "length g2 = 1 \<or> length g2 = 2" "list_all is_digit g2"
    "length y = 4" "list_all is_digit y"
  shows "to_datetime (formatter (g1, g2, y)) =
     (if valid_date (nat_of_digits y) (nat_of_digits g1) (nat_of_digits g2)
      then Some (nat_of_digits y, nat_of_digits g1, nat_of_digits g2) else None)"
proof -
  let ?a = "zfill 2 g1" and ?b = "zfill 2 g2"
  let ?s = "y @ CHR ''-'' # ?a @ CHR ''-'' # ?b"
  have la: "length ?a = 2" and lb: "length ?b = 2"
    using assms by (simp_all add: length_zfill2)
  have s: "formatter (g1, g2, y) = ?s"
    by (simp add: formatter_def)
  have parts: "length ?s = 10" "take 4 ?s = y" "?s ! 4 = CHR ''-''"
    "take 2 (drop 5 ?s) = ?a" "?s ! 7 = CHR ''-''" "drop 8 ?s = ?b"
    using assms(5) la lb by (simp_all add: nth_append)
  show ?thesis
    unfolding s to_datetime_def parts Let_def
    using assms by (simp add: digits_zfill2 nat_of_digits_zfill2)
qed

lemma strftime_formatter:
  assumes "length g1 = 1 \<or> length g1 = 2" "list_all is_digit g1"
    "length g2 = 1 \<or> length g2 = 2" "list_all is_digit g2"
    "length y = 4" "list_all is_digit y"
  shows "strftime (nat_of_digits y, nat_of_digits g1, nat_of_digits g2) = formatter (g1, g2, y)"
proof -
  have "dec 4 (nat_of_digits y) = y"
    using dec_nat_of_digits [of y] assms by simp
  with assms show ?thesis
    by (simp add: strftime_def formatter_def dec2_zfill)
qed

subsection \<open>Date normalization: the rows that are kept\<close>

lemma date_string_shape:
  "date_string sep g1 g2 y s \<Longrightarrow>
     \<exists>nl. s = g1 @ sep # g2 @ sep # y @ nl \<and> (nl = [] \<or> nl = [CHR 0x0A])"
  by (auto simp: date_string_def)

lemma standardize_date_string:
  assumes "date_string sep g1 g2 y s"
  shows "standardize_date (Text s) = Some (formatter (g1, g2, y))"
proof -
  from assms obtain nl where s: "s = g1 @ sep # g2 @ sep # y @ nl"
    and nl: "nl = [] \<or> nl = [CHR 0x0A]"
    using date_string_shape by blast
  from assms have c: "sep \<in> set patterns" "length g1 = 1 \<or> length g1 = 2"
    "length g2 = 1 \<or> length g2 = 2" "list_all is_digit g1" "list_all is_digit g2"
    "length y = 4" "list_all is_digit y"
    by (simp_all add: date_string_def)
  have n: "\<not> is_digit sep"
    using c(1) by (rule not_digit_patterns)
  have m: "re_match sep s = Some (g1, g2, y)"
    using s nl c(2-) n by (rule re_match_shape)
  have "re_match sep' s = None \<or> re_match sep' s = Some (g1, g2, y)"
    if "sep' \<in> set patterns" for sep'
  proof (cases "re_match sep' s")
    case None
    then show ?thesis by simp
  next
    case (Some m')
    have "sep' = sep \<and> m' = (g1, g2, y)"
      using Some s c(4,5,6) n not_digit_patterns [OF that] by (rule re_match_unique)
    with Some show ?thesis by simp
  qed
  then have "first_match patterns s = Some (formatter (g1, g2, y))"
    using c(1) m by (rule first_match_shape)
  then show ?thesis
    by (simp add: standardize_date_def)
qed

lemma standardize_date_SomeD:
  assumes "standardize_date c = Some sd"
  shows "\<exists>sep g1 g2 y s. c = Text s \<and> date_string sep g1 g2 y s \<and> sd = formatter (g1, g2, y)"
proof -
  from assms obtain s where c: "c = Text s" and "first_match patterns s = Some sd"
    by (cases c) (simp_all add: standardize_date_def)
  then obtain sep m where sep: "sep \<in> set patterns" and m: "re_match sep s = Some m"
    and sd: "sd = formatter m"
    using first_match_SomeD by blast
  obtain g1 g2 y where mm: "m = (g1, g2, y)"
    by (cases m)
  from re_match_SomeD [OF m [unfolded mm]] sep have "date_string sep g1 g2 y s"
    by (auto simp: date_string_def)
  with c sd mm show ?thesis
    by blast
qed

lemma clean_date_row_canonical:
  assumes "canonical_date (date r) out"
  shows "clean_date_row r = Some (r\<lparr>date := Text out\<rparr>)"
proof -
  from assms obtain sep g1 g2 y s where d: "date r = Text s" and ds: "date_string sep g1 g2 y s"
    and v: "valid_date (nat_of_digits y) (nat_of_digits g1) (nat_of_digits g2)"
    and out: "out = y @ ''-'' @ zfill 2 g1 @ ''-'' @ zfill 2 g2"
    by (auto simp: canonical_date_def)
  from ds have c: "length g1 = 1 \<or> length g1 = 2" "list_all is_digit g1"
    "length g2 = 1 \<or> length g2 = 2" "list_all is_digit g2" "length y = 4" "list_all is_digit y"
    by (simp_all add: date_string_def)
  have 1: "standardize_date (date r) = Some (formatter (g1, g2, y))"
    unfolding d using ds by (rule standardize_date_string)
  have 2: "to_datetime (formatter (g1, g2, y))
      = Some (nat_of_digits y, nat_of_digits g1, nat_of_digits g2)"
    using to_datetime_formatter [OF c] v by simp
  have 3: "strftime (nat_of_digits y, nat_of_digits g1, nat_of_digits g2) = out"
    using strftime_formatter [OF c] out by (simp add: formatter_def)
  show ?thesis
    by (simp add: clean_date_row_def 1 2 3)
qed

lemma clean_date_row_SomeD:
  assumes "clean_date_row r = Some r'"
  shows "\<exists>out. canonical_date (date r) out \<and> r' = r\<lparr>date := Text out\<rparr>"
proof -
  from assms obtain sd t where 1: "standardize_date (date r) = Some sd"
    and 2: "to_datetime sd = Some t" and r': "r' = r\<lparr>date := Text (strftime t)\<rparr>"
    by (auto simp: clean_date_row_def split: option.splits)
  from 1 obtain sep g1 g2 y s where d: "date r = Text s" and ds: "date_string sep g1 g2 y s"
    and sd: "sd = formatter (g1, g2, y)"
    using standardize_date_SomeD by blast
  from ds have c: "length g1 = 1 \<or> length g1 = 2" "list_all is_digit g1"
    "length g2 = 1 \<or> length g2 = 2" "list_all is_digit g2" "length y = 4" "list_all is_digit y"
    by (simp_all add: date_string_def)
  from 2 have v: "valid_date (nat_of_digits y) (nat_of_digits g1) (nat_of_digits g2)"
    and t: "t = (nat_of_digits y, nat_of_digits g1, nat_of_digits g2)"
    unfolding sd to_datetime_formatter [OF c] by (simp_all split: if_splits)
  have "strftime t = formatter (g1, g2, y)"
    unfolding t using c by (rule strftime_formatter)
  then have "strftime t = y @ ''-'' @ zfill 2 g1 @ ''-'' @ zfill 2 g2"
    by (simp add: formatter_def)
  with d ds v have "canonical_date (date r) (strftime t)"
    unfolding canonical_date_def by blast
  with r' show ?thesis
    by blast
qed

lemma clean_date_row_NaN: "date r = NaN \<Longrightarrow> clean_date_row r = None"
  by (simp add: clean_date_row_def standardize_date_def)

text \<open>
  C5 on the code. A row whose date is \<^verbatim>\<open>1/2/2023\<close> followed by a newline is kept, with
  the date \<^verbatim>\<open>2023-01-02\<close>: \<^verbatim>\<open>$\<close> matches before a newline that ends the string, so the
  slash pattern matches a string that does not end with the year. The claim has such
  a row dropped. On the eight other rows the code does what the claim says: it keeps
  the two dates that are a first group, a second group and a year of four digits
  and are real calendar dates read month-first, and drops month 13, a year-first
  date, a missing date, a number, the 29th of February 2023 and a year of two digits.
\<close>

theorem trailing_newline_kept:
  "clean_dates [row ''Oslo'' (Text (''1/2/2023'' @ [CHR 0x0A])) None None None None]
     = [row ''Oslo'' (Text ''2023-01-02'') None None None None] \<and>
   clean_dates
     [row ''Oslo'' (Text ''3/5/2023'') None None None None,
      row ''Oslo'' (Text ''13/05/2023'') None None None None,
      row ''Rome'' (Text ''2023/03/15'') None None None None,
      row ''Rome'' NaN None None None None,
      row ''Rome'' (Number 20230315) None None None None,
      row ''Lima'' (Text ''02-29-2024'') None None None None,
      row ''Lima'' (Text ''02.29.2023'') None None None None,
      row ''Lima'' (Text ''1/2/23'') None None None None]
   = [row ''Oslo'' (Text ''2023-03-05'') None None None None,
      row ''Lima'' (Text ''2024-02-29'') None None None None]"
  by code_simp

subsection \<open>Imputation: the loop over the cities is a map over the rows\<close>

lemma city_set_col [simp]: "city (set_col col v r) = city r"
  by (cases col) simp_all
lemma date_set_col [simp]: "date (set_col col v r) = date r"
  by (cases col) simp_all
lemma weather_condition_set_col [simp]: "weather_condition (set_col col v r) = weather_condition r"
  by (cases col) simp_all
lemma temperature_fahrenheit_set_col [simp]: "temperature_fahrenheit (set_col col v r) = temperature_fahrenheit r"
  by (cases col) simp_all
lemma get_set_col_same [simp]: "get_col col (set_col col v r) = Some v"
  by (cases col) simp_all
lemma get_set_col_other [simp]: "col' \<noteq> col \<Longrightarrow> get_col col' (set_col col v r) = get_col col' r"
  by (cases col; cases col') simp_all

lemma city_city_level [simp]: "city (city_level col avg r) = city r"
  by (simp add: city_level_def split: option.splits)

lemma city_level_idem [simp]: "city_level col avg (city_level col avg r) = city_level col avg r"
  by (simp add: city_level_def split: option.splits)

lemma fill_city_map:
  "fill_city col avg c df = map (\<lambda>r. if city r = c then city_level col avg r else r) df"
  by (induction df) (auto simp: fill_city_def city_level_def split: option.splits)

lemma fold_fill_city:
  "fold (fill_city col avg) cs df
     = map (\<lambda>r. if city r \<in> set cs then city_level col avg r else r) df"
proof (induction cs arbitrary: df)
  case Nil
  then show ?case by simp
next
  case (Cons c cs)
  have "fold (fill_city col avg) (c # cs) df = fold (fill_city col avg) cs (fill_city col avg c df)"
    by simp
  also have "\<dots> = map (\<lambda>r. if city r \<in> set cs then city_level col avg r else r)
      (fill_city col avg c df)"
    by (rule Cons.IH)
  also have "\<dots> = map (\<lambda>r. if city r \<in> set (c # cs) then city_level col avg r else r) df"
    unfolding fill_city_map by (induction df) auto
  finally show ?case .
qed

lemma set_unique [simp]: "set (unique xs) = set xs"
  by (simp add: unique_def)

lemma fill_cities_map: "fill_cities col df = map (city_level col (groupby_mean col df)) df"
  by (simp add: fill_cities_def fold_fill_city)

lemma fillna_map: "fillna col g df = map (global_level col g) df"
  by (induction df) (auto simp: fillna_def global_level_def split: option.splits)

lemma impute_column_map:
  "impute_column col df =
     map (\<lambda>r. global_level col (series_mean (map (get_col col) (fill_cities col df)))
               (city_level col (groupby_mean col df) r)) df"
  by (simp add: impute_column_def fillna_map Let_def fill_cities_map)


lemma kept_refl [simp]: "kept v v"
  by (simp add: kept_def split: option.splits)

lemma kept_None [simp]: "kept None v"
  by (simp add: kept_def)

lemma kept_trans: "kept a b \<Longrightarrow> kept b c \<Longrightarrow> kept a c"
  by (auto simp: kept_def split: option.splits)

lemma only_fills_refl [simp]: "only_fills r r"
  by (simp add: only_fills_def)

lemma only_fills_trans: "only_fills a b \<Longrightarrow> only_fills b c \<Longrightarrow> only_fills a c"
  by (auto simp: only_fills_def intro: kept_trans)

lemma only_fills_set_col: "get_col col r = None \<Longrightarrow> only_fills r (set_col col v r)"
  by (cases col) (simp_all add: only_fills_def)

lemma only_fills_city_level: "only_fills r (city_level col avg r)"
  by (simp add: city_level_def only_fills_set_col split: option.splits)

lemma only_fills_global_level: "only_fills r (global_level col g r)"
  by (simp add: global_level_def only_fills_set_col split: option.splits)

lemma only_fills_impute_column: "list_all2 only_fills df (impute_column col df)"
  unfolding impute_column_map list_all2_map2 list_all2_same
  by (blast intro: only_fills_trans only_fills_city_level only_fills_global_level)

lemma only_fills_list_trans:
  "list_all2 only_fills xs ys \<Longrightarrow> list_all2 only_fills ys zs \<Longrightarrow> list_all2 only_fills xs zs"
  by (rule list_all2_trans [of only_fills only_fills only_fills, OF only_fills_trans])

lemma handle_missing_values_unfold:
  "handle_missing_values df =
     impute_column Wind_speed_kph (impute_column Humidity_percent
       (impute_column Temperature_celsius df))"
  by (simp add: handle_missing_values_def)


lemma handle_missing_values_only_fills: "list_all2 only_fills df (handle_missing_values df)"
proof -
  let ?t = "impute_column Temperature_celsius df"
  let ?h = "impute_column Humidity_percent ?t"
  have "list_all2 only_fills df ?h"
    by (rule only_fills_list_trans [OF only_fills_impute_column only_fills_impute_column])
  then have "list_all2 only_fills df (impute_column Wind_speed_kph ?h)"
    by (rule only_fills_list_trans) (rule only_fills_impute_column)
  then show ?thesis
    by (simp only: handle_missing_values_unfold)
qed

lemma length_handle_missing_values: "length (handle_missing_values df) = length df"
  using handle_missing_values_only_fills [of df] by (simp add: list_all2_lengthD)

subsection \<open>Imputation: the values of one column\<close>

lemma get_col_city_level:
  "get_col col (city_level col avg r) =
     (case get_col col r of
        Some v \<Rightarrow> Some v
      | None \<Rightarrow> (case avg (city r) of None \<Rightarrow> None | Some m \<Rightarrow> if m \<noteq> 0 then Some m else None))"
  by (simp add: city_level_def split: option.splits)

lemma get_col_global_level:
  "get_col col (global_level col g r) = (case get_col col r of Some v \<Rightarrow> Some v | None \<Rightarrow> g)"
  by (simp add: global_level_def split: option.splits)

lemma get_col_other_city_level: "col' \<noteq> col \<Longrightarrow> get_col col' (city_level col avg r) = get_col col' r"
  by (simp add: city_level_def split: option.splits)

lemma get_col_other_global_level: "col' \<noteq> col \<Longrightarrow> get_col col' (global_level col g r) = get_col col' r"
  by (simp add: global_level_def split: option.splits)

lemma city_global_level [simp]: "city (global_level col g r) = city r"
  by (simp add: global_level_def split: option.splits)

lemma after_city_step_fill_cities: "map (get_col col) (fill_cities col df) = after_city_step col df"
  by (simp add: fill_cities_map after_city_step_def get_col_city_level)

lemma impute_column_same: "map (get_col col) (impute_column col df) = imputed_values col df"
  by (simp add: impute_column_map imputed_values_def after_city_step_fill_cities
      get_col_global_level get_col_city_level after_city_step_def)

lemma impute_column_other:
  "col' \<noteq> col \<Longrightarrow> map (get_col col') (impute_column col df) = map (get_col col') df"
  by (simp add: impute_column_map get_col_other_global_level get_col_other_city_level)

lemma impute_column_city: "map city (impute_column col df) = map city df"
  by (simp add: impute_column_map)

lemma groupby_filter_zip:
  "map (get_col col) (filter (\<lambda>r. city r = c) df)
     = map snd (filter (\<lambda>p. fst p = c) (zip (map city df) (map (get_col col) df)))"
  by (induction df) simp_all

lemma groupby_mean_cong:
  "map city df = map city df' \<Longrightarrow> map (get_col col) df = map (get_col col) df'
     \<Longrightarrow> groupby_mean col df = groupby_mean col df'"
  by (simp add: groupby_mean_def groupby_filter_zip fun_eq_iff)

lemma city_step_zip:
  "map (\<lambda>r. case get_col col r of
                 Some v \<Rightarrow> Some v
               | None \<Rightarrow> (case avg (city r) of
                            None \<Rightarrow> None
                          | Some m \<Rightarrow> if m \<noteq> 0 then Some m else None)) df =
     map (\<lambda>p. case snd p of
                 Some x \<Rightarrow> Some x
               | None \<Rightarrow> (case avg (fst p) of
                            None \<Rightarrow> None
                          | Some m \<Rightarrow> if m \<noteq> 0 then Some m else None))
       (zip (map city df) (map (get_col col) df))"
  by (induction df) (simp_all split: option.splits)

lemma after_city_step_cong:
  assumes "map city df = map city df'" and "map (get_col col) df = map (get_col col) df'"
  shows "after_city_step col df = after_city_step col df'"
proof -
  have "groupby_mean col df = groupby_mean col df'"
    using assms by (rule groupby_mean_cong)
  then show ?thesis
    by (simp only: after_city_step_def city_step_zip assms)
qed

lemma imputed_values_cong:
  assumes "map city df = map city df'" and "map (get_col col) df = map (get_col col) df'"
  shows "imputed_values col df = imputed_values col df'"
proof -
  have "after_city_step col df = after_city_step col df'"
    using assms by (rule after_city_step_cong)
  then show ?thesis
    by (simp only: imputed_values_def)
qed

lemma handle_missing_values_get_col:
  "map (get_col col) (handle_missing_values df) = imputed_values col df"
proof (cases col)
  case Temperature_celsius
  then show ?thesis
    by (simp add: handle_missing_values_unfold impute_column_other impute_column_same)
next
  case Humidity_percent
  have "imputed_values Humidity_percent (impute_column Temperature_celsius df)
          = imputed_values Humidity_percent df"
    by (rule imputed_values_cong) (simp_all add: impute_column_city impute_column_other)
  with Humidity_percent show ?thesis
    by (simp add: handle_missing_values_unfold impute_column_other impute_column_same)
next
  case Wind_speed_kph
  have "imputed_values Wind_speed_kph
          (impute_column Humidity_percent (impute_column Temperature_celsius df))
          = imputed_values Wind_speed_kph df"
    by (rule imputed_values_cong) (simp_all add: impute_column_city impute_column_other)
  with Wind_speed_kph show ?thesis
    by (simp add: handle_missing_values_unfold impute_column_other impute_column_same)
qed


lemma series_mean_all_None: "(\<forall>v\<in>set vs. v = None) \<Longrightarrow> series_mean vs = None"
  by (induction vs) (simp_all add: series_mean_def List.map_filter_simps)

lemma groupby_mean_all_None:
  "(\<forall>r\<in>set df. get_col col r = None) \<Longrightarrow> groupby_mean col df c = None"
  unfolding groupby_mean_def by (rule series_mean_all_None) simp

lemma after_city_step_all_None:
  "(\<forall>r\<in>set df. get_col col r = None) \<Longrightarrow> after_city_step col df = map (\<lambda>r. None) df"
  by (simp add: after_city_step_def groupby_mean_all_None)

lemma imputed_values_all_None:
  assumes "\<forall>r\<in>set df. get_col col r = None"
  shows "imputed_values col df = map (\<lambda>r. None) df"
proof -
  have "series_mean (map (\<lambda>r. None) df) = None"
    by (rule series_mean_all_None) simp
  then show ?thesis
    by (simp add: imputed_values_def after_city_step_all_None [OF assms])
qed


lemma handle_missing_values_degenerate_example:
  "handle_missing_values
     [row ''Oslo'' NaN None None (Some 40) None, row ''Rome'' NaN None None None (Some 7)]
   = [row ''Oslo'' NaN None None (Some 40) (Some 7), row ''Rome'' NaN None None (Some 40) (Some 7)]"
  by code_simp

lemma after_city_step_example:
  "after_city_step Temperature_celsius
     [row ''Oslo'' NaN None (Some 10) None None, row ''Oslo'' NaN None (Some 20) None None,
      row ''Oslo'' NaN None None None None, row ''Rome'' NaN None None None None,
      row ''Lima'' NaN None (Some 100) None None]
   = [Some 10, Some 20, Some 15, None, Some 100]"
  by code_simp

lemma handle_missing_values_example:
  "map temperature_celsius (handle_missing_values
     [row ''Oslo'' NaN None (Some 10) None None, row ''Oslo'' NaN None (Some 20) None None,
      row ''Oslo'' NaN None None None None, row ''Rome'' NaN None None None None,
      row ''Lima'' NaN None (Some 100) None None])
   = [Some 10, Some 20, Some 15, Some (145 / 4), Some 100]"
  by code_simp

subsection \<open>Imputation: the claims\<close>

text \<open>
  C2 on the code. The city Oslo has the temperatures 0 and missing, so its mean is
  defined and equals 0; Rome has 10. The truth test of the loop rejects the mean 0,
  and the missing temperature of Oslo is filled with the global mean 5, not with
  the city mean 0.
\<close>

theorem zero_city_mean_not_used:
  "groupby_mean Temperature_celsius
     [row ''Oslo'' NaN None (Some 0) None None, row ''Oslo'' NaN None None None None,
      row ''Rome'' NaN None (Some 10) None None] ''Oslo'' = Some 0 \<and>
   map temperature_celsius (handle_missing_values
     [row ''Oslo'' NaN None (Some 0) None None, row ''Oslo'' NaN None None None None,
      row ''Rome'' NaN None (Some 10) None None])
   = [Some 0, Some 5, Some 10]"
  by code_simp

text \<open>
  C3, as the code has it. A value that the city step leaves missing is replaced by
  the mean of the column as it is after the city step: the values that were present
  and the values the city step filled in both count. Where that mean does not exist,
  the value stays missing.
\<close>

theorem global_fallback_after_city_step:
  assumes "i < length df" and "after_city_step col df ! i = None"
  shows "get_col col (handle_missing_values df ! i) = series_mean (after_city_step col df)"
proof -
  have len: "length (handle_missing_values df) = length df"
    by (rule length_handle_missing_values)
  have "get_col col (handle_missing_values df ! i)
          = map (get_col col) (handle_missing_values df) ! i"
    using assms(1) len by simp
  also have "\<dots> = imputed_values col df ! i"
    by (simp only: handle_missing_values_get_col)
  also have "\<dots> = series_mean (after_city_step col df)"
    using assms by (simp add: imputed_values_def after_city_step_def)
  finally show ?thesis .
qed



theorem global_fallback_after_city_step_witness:
  "after_city_step Temperature_celsius
     [row ''Oslo'' NaN None (Some 10) None None, row ''Oslo'' NaN None (Some 20) None None,
      row ''Oslo'' NaN None None None None, row ''Rome'' NaN None None None None,
      row ''Lima'' NaN None (Some 100) None None] ! 3 = None \<and>
   temperature_celsius (handle_missing_values
     [row ''Oslo'' NaN None (Some 10) None None, row ''Oslo'' NaN None (Some 20) None None,
      row ''Oslo'' NaN None None None None, row ''Rome'' NaN None None None None,
      row ''Lima'' NaN None (Some 100) None None] ! 3) = Some ((10 + 20 + 15 + 100) / 4)"
  using global_fallback_after_city_step [of 3
     "[row ''Oslo'' NaN None (Some 10) None None, row ''Oslo'' NaN None (Some 20) None None,
      row ''Oslo'' NaN None None None None, row ''Rome'' NaN None None None None,
      row ''Lima'' NaN None (Some 100) None None]" Temperature_celsius]
  by (simp add: after_city_step_example series_mean_def List.map_filter_simps)

text \<open>
  C3, as the claim states it, fails. Oslo has 10, 20 and a missing temperature, Rome
  only a missing one, Lima 100. The mean of the values that were present is 130 / 3;
  Rome's temperature becomes 145 / 4, the mean of 10, 20, 100 and the 15 filled in for
  Oslo.
\<close>

theorem global_mean_counterexample:
  "temperature_celsius (handle_missing_values
     [row ''Oslo'' NaN None (Some 10) None None, row ''Oslo'' NaN None (Some 20) None None,
      row ''Oslo'' NaN None None None None, row ''Rome'' NaN None None None None,
      row ''Lima'' NaN None (Some 100) None None] ! 3)
   \<noteq> series_mean (map temperature_celsius
     [row ''Oslo'' NaN None (Some 10) None None, row ''Oslo'' NaN None (Some 20) None None,
      row ''Oslo'' NaN None None None None, row ''Rome'' NaN None None None None,
      row ''Lima'' NaN None (Some 100) None None])"
  by code_simp

text \<open>
  C7. A column in which every value is missing is still missing everywhere after
  \<^verbatim>\<open>handle_missing_values\<close>: no value is made up for it.
\<close>

theorem degenerate_field_stays_missing:
  assumes "\<forall>r\<in>set df. get_col col r = None"
  shows "\<forall>r\<in>set (handle_missing_values df). get_col col r = None"
proof
  fix r
  assume "r \<in> set (handle_missing_values df)"
  then have "get_col col r \<in> set (map (get_col col) (handle_missing_values df))"
    by simp
  then have "get_col col r \<in> set (map (\<lambda>r. None) df)"
    by (simp only: handle_missing_values_get_col imputed_values_all_None [OF assms])
  then show "get_col col r = None"
    by auto
qed


theorem degenerate_field_stays_missing_witness:
  "map temperature_celsius
     [row ''Oslo'' NaN None None (Some 40) None, row ''Rome'' NaN None None None (Some 7)]
     = [None, None] \<and>
   map temperature_celsius (handle_missing_values
     [row ''Oslo'' NaN None None (Some 40) None, row ''Rome'' NaN None None None (Some 7)])
     = [None, None]"
  using degenerate_field_stays_missing
    [of "[row ''Oslo'' NaN None None (Some 40) None, row ''Rome'' NaN None None None (Some 7)]"
        Temperature_celsius]
  by (simp add: handle_missing_values_degenerate_example) (simp add: row_def)

text \<open>
  C10. \<^verbatim>\<open>handle_missing_values\<close> returns as many rows as it is given, in the same
  order, and each row differs from the row it comes from only in numeric fields that
  were missing: city, date, weather condition and every numeric value that was present
  are unchanged.
\<close>

theorem handle_missing_values_frame:
  "length (handle_missing_values df) = length df \<and>
   list_all2 only_fills df (handle_missing_values df)"
  by (simp add: length_handle_missing_values handle_missing_values_only_fills)

theorem handle_missing_values_frame_witness:
  "list_all2 only_fills
     [row ''Oslo'' NaN None None (Some 40) None, row ''Rome'' NaN None None None (Some 7)]
     (handle_missing_values
     [row ''Oslo'' NaN None None (Some 40) None, row ''Rome'' NaN None None None (Some 7)]) \<and>
   handle_missing_values
     [row ''Oslo'' NaN None None (Some 40) None, row ''Rome'' NaN None None None (Some 7)]
   = [row ''Oslo'' NaN None None (Some 40) (Some 7), row ''Rome'' NaN None None (Some 40) (Some 7)]"
  using handle_missing_values_frame
    [of "[row ''Oslo'' NaN None None (Some 40) None, row ''Rome'' NaN None None None (Some 7)]"]
  by (simp add: handle_missing_values_degenerate_example)

subsection \<open>Weather conditions\<close>

lemma not_upper_lower_char: "\<not> is_upper (lower_char c)"
  by (simp add: lower_char_def is_upper_def)

lemma not_lower_upper_char: "\<not> is_lower (upper_char c)"
  by (auto simp: upper_char_def is_lower_def)

lemma capitalized_form_capitalize: "capitalized_form (str_capitalize s)"
  by (cases s) (simp_all add: capitalized_form_def str_capitalize_def list_all_iff
      not_upper_lower_char not_lower_upper_char)

lemma clean_weather_conditions_member:
  assumes "r \<in> set (clean_weather_conditions df)"
  shows "\<exists>s0. weather_condition r = Some (str_capitalize (str_lower s0)) \<and>
           str_capitalize (str_lower s0) \<noteq> ''Null'' \<and>
           str_capitalize (str_lower s0) \<noteq> ''NULL'' \<and>
           str_capitalize (str_lower s0) \<noteq> ''Unknown''"
proof -
  from assms obtain r0 where "r0 \<in> set df"
    and r: "r = r0\<lparr>weather_condition := replace_null
              (map_option (\<lambda>s. str_capitalize (str_lower s)) (weather_condition r0))\<rparr>"
    and keep: "weather_condition r \<noteq> Some ''Unknown''" "weather_condition r \<noteq> None"
    by (auto simp: clean_weather_conditions_def)
  from keep(2) r obtain s0 where s0: "weather_condition r0 = Some s0"
    by (cases "weather_condition r0") (auto simp: replace_null_def)
  with keep r show ?thesis
    by (intro exI [of _ s0]) (auto simp: replace_null_def split: if_splits)
qed

lemma clean_weather_conditions_example:
  "clean_weather_conditions
     [row ''Oslo'' NaN (Some ''SUNNY'') None None None, row ''Oslo'' NaN (Some ''unKNOWN'') None None None,
      row ''Rome'' NaN (Some ''NULL'') None None None, row ''Rome'' NaN None None None None,
      row ''Lima'' NaN (Some ''light rain'') None None None]
   = [row ''Oslo'' NaN (Some ''Sunny'') None None None, row ''Lima'' NaN (Some ''Light rain'') None None None]"
  by code_simp

text \<open>
  C6, as the code has it. After \<^verbatim>\<open>clean_weather_conditions\<close> the weather condition of
  every row is present, is in the form that \<^verbatim>\<open>capitalize\<close> gives, and is none of
  \<^verbatim>\<open>Unknown\<close>, \<^verbatim>\<open>Null\<close> and \<^verbatim>\<open>NULL\<close>. A row whose weather condition is the empty string
  is kept, with the empty string.
\<close>

theorem clean_weather_conditions_invariant:
  "(\<forall>r\<in>set (clean_weather_conditions df).
      \<exists>s. weather_condition r = Some s \<and> capitalized_form s \<and>
          s \<noteq> ''Unknown'' \<and> s \<noteq> ''Null'' \<and> s \<noteq> ''NULL'') \<and>
   clean_weather_conditions (xs @ r\<lparr>weather_condition := Some ''''\<rparr> # ys)
     = clean_weather_conditions xs @ r\<lparr>weather_condition := Some ''''\<rparr> # clean_weather_conditions ys"
proof
  show "\<forall>r\<in>set (clean_weather_conditions df).
      \<exists>s. weather_condition r = Some s \<and> capitalized_form s \<and>
          s \<noteq> ''Unknown'' \<and> s \<noteq> ''Null'' \<and> s \<noteq> ''NULL''"
  proof
    fix r
    assume "r \<in> set (clean_weather_conditions df)"
    then obtain s0 where "weather_condition r = Some (str_capitalize (str_lower s0))"
      and "str_capitalize (str_lower s0) \<noteq> ''Null''"
      and "str_capitalize (str_lower s0) \<noteq> ''NULL''"
      and "str_capitalize (str_lower s0) \<noteq> ''Unknown''"
      using clean_weather_conditions_member by blast
    then show "\<exists>s. weather_condition r = Some s \<and> capitalized_form s \<and>
          s \<noteq> ''Unknown'' \<and> s \<noteq> ''Null'' \<and> s \<noteq> ''NULL''"
      by (simp add: capitalized_form_capitalize)
  qed
next
  show "clean_weather_conditions (xs @ r\<lparr>weather_condition := Some ''''\<rparr> # ys)
     = clean_weather_conditions xs @ r\<lparr>weather_condition := Some ''''\<rparr> # clean_weather_conditions ys"
    by (simp add: clean_weather_conditions_def replace_null_def str_capitalize_def str_lower_def)
qed

theorem clean_weather_conditions_invariant_witness:
  "map weather_condition (clean_weather_conditions
     [row ''Oslo'' NaN (Some ''SUNNY'') None None None, row ''Oslo'' NaN (Some ''unKNOWN'') None None None,
      row ''Rome'' NaN (Some ''NULL'') None None None, row ''Rome'' NaN None None None None,
      row ''Lima'' NaN (Some ''light rain'') None None None])
   = [Some ''Sunny'', Some ''Light rain''] \<and>
   capitalized_form ''Sunny'' \<and> capitalized_form ''Light rain''"
proof -
  have a: "map weather_condition (clean_weather_conditions
     [row ''Oslo'' NaN (Some ''SUNNY'') None None None, row ''Oslo'' NaN (Some ''unKNOWN'') None None None,
      row ''Rome'' NaN (Some ''NULL'') None None None, row ''Rome'' NaN None None None None,
      row ''Lima'' NaN (Some ''light rain'') None None None])
   = [Some ''Sunny'', Some ''Light rain'']"
    unfolding clean_weather_conditions_example by (simp add: row_def)
  have b: "capitalized_form ''Sunny''" and c: "capitalized_form ''Light rain''"
    by code_simp+
  from clean_weather_conditions_invariant
    [of "[row ''Oslo'' NaN (Some ''SUNNY'') None None None, row ''Oslo'' NaN (Some ''unKNOWN'') None None None,
      row ''Rome'' NaN (Some ''NULL'') None None None, row ''Rome'' NaN None None None None,
      row ''Lima'' NaN (Some ''light rain'') None None None]" "[]" "row ''Oslo'' NaN None None None None" "[]"]
  show ?thesis
    by - (intro conjI, rule a, rule b, rule c)
qed

text \<open>
  C6, as the claim states it, fails: a row whose weather condition is the empty
  string survives, and its weather condition is the empty string.
\<close>

theorem empty_condition_counterexample:
  "map weather_condition
     (clean_weather_conditions [row ''Oslo'' NaN (Some []) None None None])
   = [Some []]"
  by code_simp

subsection \<open>The report\<close>



lemma mean_ge_None [simp]: "mean_ge a None"
  by (simp add: mean_ge_def)

lemma mean_ge_Some [simp]: "mean_ge (Some x) (Some y) = (y \<le> x)"
  by (simp add: mean_ge_def)












subsection \<open>The derived column\<close>

text \<open>
  C8. \<^verbatim>\<open>add_fahrenheit_column\<close> keeps every row and gives each one the Fahrenheit value
  \<open>c * 9 / 5 + 32\<close> of its Celsius value \<open>c\<close>; where the Celsius value is missing, the
  Fahrenheit value is missing too.
\<close>

theorem add_fahrenheit_column_formula:
  "length (add_fahrenheit_column df) = length df \<and>
   map temperature_fahrenheit (add_fahrenheit_column df)
     = map (\<lambda>r. case temperature_celsius r of None \<Rightarrow> None | Some c \<Rightarrow> Some (c * 9 / 5 + 32)) df"
  by (simp add: add_fahrenheit_column_def map_option_case)

text \<open>The values of the claim: 0 gives 32, 100 gives 212, a missing value stays missing.\<close>

theorem add_fahrenheit_column_formula_witness:
  "map temperature_fahrenheit (add_fahrenheit_column
      [row ''Oslo'' NaN None (Some 0) None None, row ''Oslo'' NaN None (Some 100) None None,
       row ''Oslo'' NaN None None None None])
     = [Some 32, Some 212, None]"
  using add_fahrenheit_column_formula
    [of "[row ''Oslo'' NaN None (Some 0) None None, row ''Oslo'' NaN None (Some 100) None None,
          row ''Oslo'' NaN None None None None]"]
  by (simp add: row_def)

subsection \<open>The pipeline run on its own output\<close>

lemma rint_of_int: "rint (of_int k) = k"
  by (simp add: rint_def)

lemma round2_idem: "round2 (round2 x) = round2 x"
  by (simp add: round2_def rint_of_int)

lemma map_option_round2_idem: "map_option round2 (map_option round2 v) = map_option round2 v"
  by (cases v) (simp_all add: round2_idem)

lemma lower_char_idem: "lower_char (lower_char c) = lower_char c"
  using not_upper_lower_char [of c] by (simp add: lower_char_def [of "lower_char c"])

lemma lower_upper_lower: "is_lower c \<Longrightarrow> lower_char (upper_char c) = c"
  by (auto simp: lower_char_def upper_char_def is_lower_def is_upper_def)

lemma upper_lower_upper_lower:
  "upper_char (lower_char (upper_char (lower_char c))) = upper_char (lower_char c)"
proof (cases "is_lower (lower_char c)")
  case True
  then show ?thesis by (simp add: lower_upper_lower)
next
  case False
  then have "upper_char (lower_char c) = lower_char c"
    by (simp add: upper_char_def)
  then show ?thesis
    by (simp add: lower_char_idem)
qed

lemma capitalize_lower_idem:
  "str_capitalize (str_lower (str_capitalize (str_lower s))) = str_capitalize (str_lower s)"
  by (cases s) (simp_all add: str_capitalize_def str_lower_def lower_char_idem
      upper_lower_upper_lower)

lemma clean_weather_conditions_fixed:
  assumes "\<forall>r\<in>set ds. \<exists>s. weather_condition r = Some s \<and> str_capitalize (str_lower s) = s \<and>
             s \<noteq> ''Null'' \<and> s \<noteq> ''NULL'' \<and> s \<noteq> ''Unknown''"
  shows "clean_weather_conditions ds = ds"
  using assms
  by (induction ds) (auto simp: clean_weather_conditions_def replace_null_def)

lemma series_mean_None_iff: "series_mean vs = None \<longleftrightarrow> (\<forall>v\<in>set vs. v = None)"
proof -
  have "List.map_filter (\<lambda>v. v) vs = [] \<longleftrightarrow> (\<forall>v\<in>set vs. v = None)"
    by (induction vs) (auto simp: List.map_filter_simps split: option.splits)
  then show ?thesis
    by (simp add: series_mean_def Let_def)
qed

lemma imputed_values_uniform:
  "(\<forall>v\<in>set (imputed_values col ds). v = None) \<or> (\<forall>v\<in>set (imputed_values col ds). v \<noteq> None)"
proof (cases "series_mean (after_city_step col ds)")
  case None
  then have "\<forall>v\<in>set (after_city_step col ds). v = None"
    by (simp add: series_mean_None_iff)
  with None show ?thesis
    by (auto simp: imputed_values_def)
next
  case (Some g)
  then show ?thesis
    by (auto simp: imputed_values_def split: option.splits)
qed

lemma handle_missing_values_uniform:
  "(\<forall>r\<in>set (handle_missing_values ds). get_col col r = None) \<or>
   (\<forall>r\<in>set (handle_missing_values ds). get_col col r \<noteq> None)"
proof -
  have "set (imputed_values col ds) = get_col col ` set (handle_missing_values ds)"
    by (simp flip: handle_missing_values_get_col)
  with imputed_values_uniform [of col ds] show ?thesis
    by auto
qed

lemma impute_column_fixed:
  assumes "(\<forall>r\<in>set ds. get_col col r = None) \<or> (\<forall>r\<in>set ds. get_col col r \<noteq> None)"
  shows "impute_column col ds = ds"
  using assms
proof
  assume none: "\<forall>r\<in>set ds. get_col col r = None"
  then have 1: "\<forall>r\<in>set ds. city_level col (groupby_mean col ds) r = r"
    by (simp add: city_level_def groupby_mean_all_None)
  then have 2: "fill_cities col ds = ds"
    by (simp add: fill_cities_map map_idI)
  have "series_mean (map (get_col col) ds) = None"
    using none by (simp add: series_mean_None_iff)
  with 1 2 show ?thesis
    by (simp add: impute_column_map global_level_def none map_idI)
next
  assume "\<forall>r\<in>set ds. get_col col r \<noteq> None"
  then have "\<forall>r\<in>set ds. city_level col avg r = r \<and> global_level col g r = r" for avg g
    by (auto simp: city_level_def global_level_def)
  then show ?thesis
    by (simp add: impute_column_map map_idI)
qed

lemma handle_missing_values_fixed:
  assumes "\<And>col. (\<forall>r\<in>set ds. get_col col r = None) \<or> (\<forall>r\<in>set ds. get_col col r \<noteq> None)"
  shows "handle_missing_values ds = ds"
  by (simp add: handle_missing_values_unfold impute_column_fixed [OF assms])

lemma get_col_round_fahrenheit:
  "map (get_col col) (round_numeric_columns (add_fahrenheit_column ds))
     = map (\<lambda>r. map_option round2 (get_col col r)) ds"
  by (cases col) (simp_all add: round_numeric_columns_def add_fahrenheit_column_def)

lemma weather_condition_round_fahrenheit:
  "map weather_condition (round_numeric_columns (add_fahrenheit_column ds)) = map weather_condition ds"
  by (simp add: round_numeric_columns_def add_fahrenheit_column_def)

lemma date_round_fahrenheit:
  "map date (round_numeric_columns (add_fahrenheit_column ds)) = map date ds"
  by (simp add: round_numeric_columns_def add_fahrenheit_column_def)

lemma only_fills_maps:
  "list_all2 only_fills xs ys \<Longrightarrow>
     map weather_condition ys = map weather_condition xs \<and> map date ys = map date xs"
  by (induction rule: list_all2_induct) (simp_all add: only_fills_def)

lemma main_get_col:
  "map (get_col col) (main df)
     = map (map_option round2) (imputed_values col (clean_weather_conditions (clean_dates df)))"
  by (simp add: main_def get_col_round_fahrenheit flip: handle_missing_values_get_col)

lemma main_uniform:
  "(\<forall>r\<in>set (main df). get_col col r = None) \<or> (\<forall>r\<in>set (main df). get_col col r \<noteq> None)"
proof -
  let ?vs = "imputed_values col (clean_weather_conditions (clean_dates df))"
  have mem: "get_col col r \<in> map_option round2 ` set ?vs" if "r \<in> set (main df)" for r
  proof -
    from that have "get_col col r \<in> set (map (get_col col) (main df))"
      by simp
    then show ?thesis
      by (simp only: main_get_col set_map)
  qed
  from imputed_values_uniform [of col "clean_weather_conditions (clean_dates df)"]
  show ?thesis
  proof
    assume "\<forall>v\<in>set ?vs. v = None"
    with mem have "\<forall>r\<in>set (main df). get_col col r = None"
      by fastforce
    then show ?thesis ..
  next
    assume "\<forall>v\<in>set ?vs. v \<noteq> None"
    with mem have "\<forall>r\<in>set (main df). get_col col r \<noteq> None"
      by fastforce
    then show ?thesis ..
  qed
qed

lemma main_weather_condition:
  "map weather_condition (main df)
     = map weather_condition (clean_weather_conditions (clean_dates df))"
  using only_fills_maps [OF handle_missing_values_only_fills]
  by (simp add: main_def weather_condition_round_fahrenheit)

lemma date_clean_weather_conditions:
  "r \<in> set (clean_weather_conditions ds) \<Longrightarrow> date r \<in> date ` set ds"
  by (auto simp: clean_weather_conditions_def)

lemma main_date:
  assumes "r \<in> set (main df)"
  shows "date r \<in> date ` set (clean_dates df)"
proof -
  let ?w = "clean_weather_conditions (clean_dates df)"
  have "map date (main df) = map date ?w"
    using only_fills_maps [OF handle_missing_values_only_fills]
    by (simp add: main_def date_round_fahrenheit)
  then have "date ` set (main df) = date ` set ?w"
    by (metis set_map)
  with assms have "date r \<in> date ` set ?w"
    by blast
  then obtain w where "w \<in> set ?w" and "date r = date w"
    by blast
  then show ?thesis
    using date_clean_weather_conditions [of w "clean_dates df"] by simp
qed

lemma clean_dates_member:
  assumes "r \<in> set (clean_dates df)"
  shows "\<exists>c out. canonical_date c out \<and> date r = Text out"
proof -
  from assms obtain r0 where "clean_date_row r0 = Some r"
    by (auto simp: clean_dates_def List.map_filter_def)
  then obtain out where "canonical_date (date r0) out" and "r = r0\<lparr>date := Text out\<rparr>"
    using clean_date_row_SomeD by blast
  then show ?thesis
    by auto
qed

lemma standardize_canonical:
  assumes "canonical_date c out"
  shows "standardize_date (Text out) = None"
proof (rule ccontr)
  assume "standardize_date (Text out) \<noteq> None"
  then obtain sd where "standardize_date (Text out) = Some sd"
    by auto
  then obtain sep a b y' where ds: "date_string sep a b y' out"
    using standardize_date_SomeD by blast
  then obtain t where out1: "out = a @ sep # t" and la: "length a = 1 \<or> length a = 2"
    and sep: "sep \<in> set patterns"
    by (auto simp: date_string_def)
  from assms obtain y t' where out2: "out = y @ t'" and y: "length y = 4" "list_all is_digit y"
    by (auto simp: canonical_date_def date_string_def)
  have "out ! length a = sep"
    by (simp add: out1)
  moreover have "out ! length a = y ! length a"
    using la y(1) by (auto simp: out2 nth_append)
  moreover have "is_digit (y ! length a)"
    using la y by (auto simp: list_all_length)
  ultimately show False
    using not_digit_patterns [OF sep] by simp
qed

lemma clean_dates_Nil: "clean_dates [] = []"
  by (simp add: clean_dates_def)

lemma clean_dates_all_dropped:
  "(\<forall>r\<in>set ds. standardize_date (date r) = None) \<Longrightarrow> clean_dates ds = []"
  by (induction ds) (simp_all add: clean_dates_Nil clean_dates_Cons clean_date_row_def)

lemma clean_dates_main: "clean_dates (main df) = []"
proof (rule clean_dates_all_dropped, rule ballI)
  fix r
  assume "r \<in> set (main df)"
  then obtain r0 where "r0 \<in> set (clean_dates df)" and "date r = date r0"
    using main_date by blast
  then obtain c out where "canonical_date c out" and "date r = Text out"
    using clean_dates_member by metis
  then show "standardize_date (date r) = None"
    by (simp add: standardize_canonical)
qed

lemma main_Nil: "main [] = []"
proof -
  have "length (main []) = 0"
    by (simp add: main_def round_numeric_columns_def add_fahrenheit_column_def
        length_handle_missing_values clean_weather_conditions_def clean_dates_def)
  then show ?thesis
    by simp
qed

lemma main_conditions:
  assumes "r \<in> set (main df)"
  shows "\<exists>s. weather_condition r = Some s \<and> str_capitalize (str_lower s) = s \<and>
           s \<noteq> ''Null'' \<and> s \<noteq> ''NULL'' \<and> s \<noteq> ''Unknown''"
proof -
  let ?w = "clean_weather_conditions (clean_dates df)"
  have "weather_condition ` set (main df) = weather_condition ` set ?w"
    using main_weather_condition [of df] by (metis set_map)
  with assms obtain w where "w \<in> set ?w" and "weather_condition r = weather_condition w"
    by blast
  then show ?thesis
    using clean_weather_conditions_member [of w "clean_dates df"]
    by (auto simp: capitalize_lower_idem)
qed

lemma rounded_again:
  "map (\<lambda>r. r\<lparr>temperature_fahrenheit := None\<rparr>)
     (round_numeric_columns (add_fahrenheit_column (round_numeric_columns ds)))
   = map (\<lambda>r. r\<lparr>temperature_fahrenheit := None\<rparr>) (round_numeric_columns ds)"
  by (simp add: round_numeric_columns_def add_fahrenheit_column_def map_option_round2_idem)

lemma main_example:
  "main [row ''Oslo'' (Text ''03/15/2023'') (Some ''sunny'') (Some (1 / 250)) (Some 40) None,
      row ''Oslo'' (Text ''3-16-2023'') (Some ''RAIN'') None None None]
   = [\<lparr>city = ''Oslo'', date = Text ''2023-03-15'', weather_condition = Some ''Sunny'',
        temperature_celsius = Some 0, humidity_percent = Some 40, wind_speed_kph = None,
        temperature_fahrenheit = Some (3201 / 100)\<rparr>,
      \<lparr>city = ''Oslo'', date = Text ''2023-03-16'', weather_condition = Some ''Rain'',
        temperature_celsius = Some 0, humidity_percent = Some 40, wind_speed_kph = None,
        temperature_fahrenheit = Some (3201 / 100)\<rparr>]"
  by code_simp

text \<open>
  C1, as the code has it. The pipeline is not idempotent. Run on its own output,
  date normalization drops every row: a canonical date \<^verbatim>\<open>YYYY-MM-DD\<close> begins with four
  digits and matches none of the three patterns. The other stages (weather
  conditions, imputation, Fahrenheit, rounding), run again on the output, keep every
  row in its place and change no field but \<^verbatim>\<open>temperature_fahrenheit\<close>, which they compute
  anew from the rounded Celsius value.
\<close>

theorem second_run:
  "main (main df) = [] \<and>
   map (\<lambda>r. r\<lparr>temperature_fahrenheit := None\<rparr>)
     (round_numeric_columns (add_fahrenheit_column (handle_missing_values
        (clean_weather_conditions (main df)))))
   = map (\<lambda>r. r\<lparr>temperature_fahrenheit := None\<rparr>) (main df)"
proof
  have "main (main df) = round_numeric_columns (add_fahrenheit_column (handle_missing_values
      (clean_weather_conditions (clean_dates (main df)))))"
    by (subst main_def) (rule refl)
  also have "\<dots> = main []"
    by (simp only: clean_dates_main clean_dates_Nil main_def [of "[]"])
  finally have "main (main df) = main []" .
  then show "main (main df) = []"
    by (simp add: main_Nil)
next
  have 1: "clean_weather_conditions (main df) = main df"
    by (rule clean_weather_conditions_fixed) (simp add: main_conditions)
  have 2: "handle_missing_values (main df) = main df"
    by (rule handle_missing_values_fixed) (rule main_uniform)
  show "map (\<lambda>r. r\<lparr>temperature_fahrenheit := None\<rparr>)
     (round_numeric_columns (add_fahrenheit_column (handle_missing_values
        (clean_weather_conditions (main df)))))
   = map (\<lambda>r. r\<lparr>temperature_fahrenheit := None\<rparr>) (main df)"
    unfolding 1 2 by (simp only: main_def rounded_again)
qed


theorem second_run_witness:
  "length (main [row ''Oslo'' (Text ''03/15/2023'') (Some ''sunny'') (Some (1 / 250)) (Some 40) None,
      row ''Oslo'' (Text ''3-16-2023'') (Some ''RAIN'') None None None]) = 2 \<and>
   main (main [row ''Oslo'' (Text ''03/15/2023'') (Some ''sunny'') (Some (1 / 250)) (Some 40) None,
      row ''Oslo'' (Text ''3-16-2023'') (Some ''RAIN'') None None None]) = []"
proof -
  have a: "length (main [row ''Oslo'' (Text ''03/15/2023'') (Some ''sunny'') (Some (1 / 250)) (Some 40) None,
      row ''Oslo'' (Text ''3-16-2023'') (Some ''RAIN'') None None None]) = 2"
    unfolding main_example by simp
  from second_run
    [of "[row ''Oslo'' (Text ''03/15/2023'') (Some ''sunny'') (Some (1 / 250)) (Some 40) None,
      row ''Oslo'' (Text ''3-16-2023'') (Some ''RAIN'') None None None]"]
  show ?thesis
    using a by simp
qed

text \<open>
  C1, as the claim states it, fails: two rows go through the pipeline, and the
  second run on the two rows that come out is not a no-op.
\<close>

theorem second_run_counterexample:
  "main (main [row ''Oslo'' (Text ''03/15/2023'') (Some ''sunny'') (Some (1 / 250)) (Some 40) None,
      row ''Oslo'' (Text ''3-16-2023'') (Some ''RAIN'') None None None])
   \<noteq> main [row ''Oslo'' (Text ''03/15/2023'') (Some ''sunny'') (Some (1 / 250)) (Some 40) None,
      row ''Oslo'' (Text ''3-16-2023'') (Some ''RAIN'') None None None]"
  by code_simp

end
